theory Spec2Isabelle
  imports Complex_Main "HOL-Library.Multiset"
begin

section \<open>Data model (types.ts)\<close>

text \<open>
  The interfaces of \<^verbatim>\<open>types.ts\<close> as records. An optional field \<^verbatim>\<open>f?: T\<close> is a
  \<open>T option\<close>. A JavaScript \<^verbatim>\<open>number\<close> that holds a byte count is an \<open>int\<close>;
  a \<^verbatim>\<open>Record<string, T>\<close> is the association list that \<^verbatim>\<open>Object.entries\<close>
  enumerates (keys pairwise different, in enumeration order). Field names that several
  interfaces share, or that clash with a constant of HOL, carry a prefix or suffix.
\<close>

datatype ChunkId = IdNumber int | IdString string

record Asset =
  asset_name :: string
  asset_size :: int
  asset_chunks :: "ChunkId list option"
  emitted :: "bool option"
  isOverSizeLimit :: "bool option"

record Chunk =
  chunk_id :: ChunkId
  names :: "string list"
  chunk_size :: int
  files :: "string list option"
  chunk_hash :: "string option"

record ChunkGroup =
  group_chunks :: "ChunkId list"
  group_assets :: "string list"

text \<open>The value type \<^verbatim>\<open>string | string[]\<close> of \<^verbatim>\<open>assetsByChunkName\<close>.\<close>

datatype AssetNames = Single string | Several "string list"

record WebpackStats =
  stats_assets :: "Asset list"
  chunks :: "Chunk list option"
  assetsByChunkName :: "(string \<times> AssetNames) list option"
  namedChunkGroups :: "(string \<times> ChunkGroup) list option"

record AnalyzedAsset =
  name :: string
  size_bytes :: int
  sizeText :: string
  exceeded :: bool
  chunkNames :: "string list"
  isInitial :: "bool option"

record Summary =
  totalSize :: int
  totalSizeText :: string
  fileCount :: nat
  exceededFileCount :: nat

record Threshold =
  individualExceeded :: "string list"
  totalExceeded :: bool
  anyExceeded :: bool

record AnalysisResult =
  assets :: "AnalyzedAsset list"
  summary :: Summary
  threshold :: Threshold

record Config =
  statsPath :: string
  bundleSizeThreshold :: int
  totalSizeThreshold :: int
  failOnThresholdExceed :: bool


section \<open>Size formatting (utils/file-size.ts)\<close>

text \<open>
  The platform functions that \<^verbatim>\<open>formatFileSize\<close> calls, on exact numbers: the byte
  count is an integer, the scaled figure \<^verbatim>\<open>absBytes / Math.pow(k, i)\<close> a rational
  (dividing a double by a power of two is exact), and
  \<^verbatim>\<open>Math.floor(Math.log(absBytes) / Math.log(k))\<close> is the exact integer logarithm;
  the rounding error of the two floating-point logarithms is not modelled.
\<close>

definition SIZES :: "string list" where
  "SIZES = [''B'', ''KB'', ''MB'', ''GB'']"

text \<open>\<^verbatim>\<open>${SIZES[i]}\<close>: a read past the end of the array is \<^verbatim>\<open>undefined\<close>, and the
  template literal prints it as such.\<close>

definition SIZES_at :: "nat \<Rightarrow> string" where
  "SIZES_at i = (if i < length SIZES then SIZES ! i else ''undefined'')"

text \<open>\<^verbatim>\<open>Math.floor(Math.log(n) / Math.log(k))\<close> for an integer \<open>n \<ge> 1\<close>.\<close>

function floor_log :: "int \<Rightarrow> int \<Rightarrow> nat" where
  "floor_log k n = (if k < 2 \<or> n < k then 0 else Suc (floor_log k (n div k)))"
  by pat_completeness auto
termination
proof (relation "measure (\<lambda>(k, n). nat n)")
  show "wf (measure (\<lambda>(k :: int, n :: int). nat n))"
    by simp
next
  fix k n :: int
  assume a: "\<not> (k < 2 \<or> n < k)"
  then have "n div k < n"
    by (intro int_div_less_self) auto
  then show "((k, n div k), (k, n)) \<in> measure (\<lambda>(k, n). nat n)"
    using a by simp
qed

declare floor_log.simps [simp del]

text \<open>\<^verbatim>\<open>Math.round\<close>: the nearest integer, a tie going up.\<close>

definition Math_round :: "rat \<Rightarrow> int" where
  "Math_round x = \<lfloor>x + 1 / 2\<rfloor>"

text \<open>The decimal digits of a non-negative integer, and \<^verbatim>\<open>String(n)\<close> for an integer.\<close>

function show_nat :: "int \<Rightarrow> string" where
  "show_nat n =
     (if n < 10 then [''0123456789'' ! nat n]
      else show_nat (n div 10) @ [''0123456789'' ! nat (n mod 10)])"
  by pat_completeness auto
termination
  by (relation "measure nat") auto

declare show_nat.simps [simp del]

definition show_int :: "int \<Rightarrow> string" where
  "show_int i = (if i < 0 then ''-'' @ show_nat (- i) else show_nat i)"

text \<open>
  \<^verbatim>\<open>Number.prototype.toFixed(f)\<close> as ECMAScript defines it for a magnitude below
  \<open>10\<^sup>2\<^sup>1\<close>: take the integer \<open>n\<close> with \<open>n / 10\<^sup>f\<close> nearest to \<open>x\<close> (the larger on a
  tie), write its digits, pad with zeros on the left to \<open>f + 1\<close> digits, and put the
  point before the last \<open>f\<close> digits.
\<close>

definition toFixed_digits :: "int \<Rightarrow> nat \<Rightarrow> string" where
  "toFixed_digits n f =
     (let m = show_nat n;
          m = (if f \<noteq> 0 \<and> length m \<le> f then replicate (f + 1 - length m) (CHR ''0'') @ m else m)
      in if f \<noteq> 0
         then take (length m - f) m @ ''.'' @ drop (length m - f) m
         else m)"

definition toFixed :: "rat \<Rightarrow> nat \<Rightarrow> string" where
  "toFixed x f =
     (if x < 0 then ''-'' @ toFixed_digits \<lfloor>(- x) * 10 ^ f + 1 / 2\<rfloor> f
      else toFixed_digits \<lfloor>x * 10 ^ f + 1 / 2\<rfloor> f)"

definition formatFileSize :: "int \<Rightarrow> string" where
  "formatFileSize bytes =
     (if bytes = 0 then ''0 B''
      else
        let negative = bytes < 0;
            absBytes = \<bar>bytes\<bar>;
            k = 1024;
            i = floor_log k absBytes;
            size = (of_int absBytes :: rat) / of_int k ^ i;
            formatted =
              (if i = 0 then show_int (Math_round size) @ '' '' @ SIZES_at i
               else if size \<ge> 100 then show_int (Math_round size) @ '' '' @ SIZES_at i
               else if size \<ge> 10 then toFixed size 1 @ '' '' @ SIZES_at i
               else toFixed size 2 @ '' '' @ SIZES_at i)
        in if negative then ''-'' @ formatted else formatted)"


section \<open>Bundle analyzer (analyzer/bundle-analyzer.ts)\<close>

text \<open>\<^verbatim>\<open>String.prototype.endsWith\<close>.\<close>

definition endsWith :: "string \<Rightarrow> string \<Rightarrow> bool" where
  "endsWith s suf = (length suf \<le> length s \<and> drop (length s - length suf) s = suf)"

text \<open>
  \<^verbatim>\<open>Array.prototype.sort(compareFn)\<close>: the sort is stable (ECMAScript 2019), so for a
  consistent comparator its result is the one of a stable insertion sort, where an element
  goes before the first one it does not compare greater than.
\<close>

fun insert_by :: "('a \<Rightarrow> 'a \<Rightarrow> int) \<Rightarrow> 'a \<Rightarrow> 'a list \<Rightarrow> 'a list" where
  "insert_by cmp x [] = [x]"
| "insert_by cmp x (y # ys) = (if cmp x y \<le> 0 then x # y # ys else y # insert_by cmp x ys)"

definition Array_sort :: "('a \<Rightarrow> 'a \<Rightarrow> int) \<Rightarrow> 'a list \<Rightarrow> 'a list" where
  "Array_sort cmp xs = foldr (insert_by cmp) xs []"

subsection \<open>buildChunkMapping\<close>

text \<open>
  The \<^verbatim>\<open>Map<string, string[]>\<close> is a partial function; \<^verbatim>\<open>mapping.get(a) || []\<close> is
  \<open>existing\<close> (an array is truthy, the empty one too). Each array stored in the map is
  created in this function and belongs to one key, so pushing to it changes that key only.
\<close>

type_synonym ChunkMapping = "string \<rightharpoonup> string list"

definition existing :: "ChunkMapping \<Rightarrow> string \<Rightarrow> string list" where
  "existing mapping a = (case mapping a of None \<Rightarrow> [] | Some e \<Rightarrow> e)"

fun assetList :: "AssetNames \<Rightarrow> string list" where
  "assetList (Single a) = [a]"
| "assetList (Several as) = as"

text \<open>First source: \<^verbatim>\<open>existing.push(chunkName)\<close> for every listed asset, without a test.\<close>

definition addAssetsByChunkName :: "string \<times> AssetNames \<Rightarrow> ChunkMapping \<Rightarrow> ChunkMapping" where
  "addAssetsByChunkName entry mapping =
     fold (\<lambda>asset m. m(asset \<mapsto> existing m asset @ [fst entry])) (assetList (snd entry)) mapping"

text \<open>Second source: for each file of a chunk, the chunk's names not yet in the list.\<close>

definition pushNew :: "string \<Rightarrow> string list \<Rightarrow> string list" where
  "pushNew n ex = (if n \<in> set ex then ex else ex @ [n])"

definition addChunk :: "Chunk \<Rightarrow> ChunkMapping \<Rightarrow> ChunkMapping" where
  "addChunk chunk mapping =
     (case files chunk of
        None \<Rightarrow> mapping
      | Some fs \<Rightarrow> fold (\<lambda>file m. m(file \<mapsto> fold pushNew (names chunk) (existing m file))) fs mapping)"

text \<open>Third source: the group name for each asset of a named chunk group.\<close>

definition addChunkGroup :: "string \<times> ChunkGroup \<Rightarrow> ChunkMapping \<Rightarrow> ChunkMapping" where
  "addChunkGroup entry mapping =
     fold (\<lambda>asset m. m(asset \<mapsto> pushNew (fst entry) (existing m asset)))
       (group_assets (snd entry)) mapping"

definition buildChunkMapping :: "WebpackStats \<Rightarrow> ChunkMapping" where
  "buildChunkMapping stats =
     (let mapping = Map.empty;
          mapping = (case assetsByChunkName stats of
                       None \<Rightarrow> mapping
                     | Some entries \<Rightarrow> fold addAssetsByChunkName entries mapping);
          mapping = (case chunks stats of
                       None \<Rightarrow> mapping
                     | Some cs \<Rightarrow> fold addChunk cs mapping);
          mapping = (case namedChunkGroups stats of
                       None \<Rightarrow> mapping
                     | Some groups \<Rightarrow> fold addChunkGroup groups mapping)
      in mapping)"

subsection \<open>analyzeAssets and analyze\<close>

text \<open>The callback of \<^verbatim>\<open>filter\<close>: source maps, license files and assets with
  \<^verbatim>\<open>emitted === false\<close> are skipped.\<close>

definition isBundleFile :: "Asset \<Rightarrow> bool" where
  "isBundleFile asset \<longleftrightarrow>
     \<not> endsWith (asset_name asset) ''.map'' \<and>
     \<not> endsWith (asset_name asset) ''.LICENSE.txt'' \<and>
     emitted asset \<noteq> Some False"

text \<open>The callback of \<^verbatim>\<open>map\<close>.\<close>

definition analyzeAsset :: "int \<Rightarrow> ChunkMapping \<Rightarrow> Asset \<Rightarrow> AnalyzedAsset" where
  "analyzeAsset thr chunkMapping asset =
     \<lparr> name = asset_name asset,
       size_bytes = asset_size asset,
       sizeText = formatFileSize (asset_size asset),
       exceeded = (asset_size asset > thr),
       chunkNames = existing chunkMapping (asset_name asset),
       isInitial = (case isOverSizeLimit asset of None \<Rightarrow> None | Some b \<Rightarrow> Some (\<not> b)) \<rparr>"

definition analyzeAssets :: "Asset list \<Rightarrow> int \<Rightarrow> ChunkMapping \<Rightarrow> AnalyzedAsset list" where
  "analyzeAssets as thr chunkMapping =
     Array_sort (\<lambda>a b. size_bytes b - size_bytes a)
       (map (analyzeAsset thr chunkMapping) (filter isBundleFile as))"

definition analyze :: "WebpackStats \<Rightarrow> Config \<Rightarrow> AnalysisResult" where
  "analyze stats config =
     (let chunkMapping = buildChunkMapping stats;
          analyzedAssets = analyzeAssets (stats_assets stats) (bundleSizeThreshold config) chunkMapping;
          total = foldl (\<lambda>sum asset. sum + size_bytes asset) 0 analyzedAssets;
          exceededFiles = filter exceeded analyzedAssets;
          individual = map name exceededFiles;
          totalExc = (total > totalSizeThreshold config)
      in \<lparr> assets = analyzedAssets,
           summary = \<lparr> totalSize = total,
                       totalSizeText = formatFileSize total,
                       fileCount = length analyzedAssets,
                       exceededFileCount = length exceededFiles \<rparr>,
           threshold = \<lparr> individualExceeded = individual,
                         totalExceeded = totalExc,
                         anyExceeded = (length individual > 0 \<or> totalExc) \<rparr> \<rparr>)"



section \<open>Manifest parser (parser/stats-parser.ts, errors.ts)\<close>

text \<open>
  The value that \<^verbatim>\<open>JSON.parse\<close> returns. An object is the list of its own
  properties (the decoder leaves one entry per key), a number is exact.
\<close>

datatype JSON =
    JNull
  | JBoolean bool
  | JNumber rat
  | JString string
  | JArray "JSON list"
  | JObject "(string \<times> JSON) list"

datatype ErrorCode =
    FILE_NOT_FOUND | FILE_READ_ERROR | FILE_TOO_LARGE
  | JSON_PARSE_ERROR | INVALID_STATS_FORMAT
  | GITHUB_API_ERROR | RATE_LIMIT_ERROR | COMMENT_NOT_FOUND
  | INVALID_CONFIG | INVALID_THRESHOLD
  | MEMORY_LIMIT_ERROR | UNKNOWN_ERROR

datatype ErrorLevel = fatal | error | warning | info

text \<open>The \<^verbatim>\<open>details\<close> that \<open>parse\<close> attaches: the caught error, or the rejected value.\<close>

datatype Details = Caught string | Data JSON

record BundleStatsError =
  message :: string
  code :: ErrorCode
  level :: ErrorLevel
  details :: "Details option"

definition createError :: "ErrorCode \<Rightarrow> string \<Rightarrow> ErrorLevel \<Rightarrow> Details option \<Rightarrow> BundleStatsError" where
  "createError c msg lvl d = \<lparr> message = msg, code = c, level = lvl, details = d \<rparr>"

text \<open>The operators \<^verbatim>\<open>typeof\<close>, \<^verbatim>\<open>key in value\<close> (own properties; an array has its
  indices and \<^verbatim>\<open>length\<close>), property read (\<open>None\<close> is \<^verbatim>\<open>undefined\<close>) and
  \<^verbatim>\<open>Array.isArray\<close>. The source reaches \<^verbatim>\<open>in\<close> only behind
  \<^verbatim>\<open>typeof data === 'object' && data !== null\<close>, where it cannot throw.\<close>

fun typeof :: "JSON \<Rightarrow> string" where
  "typeof JNull = ''object''"
| "typeof (JBoolean b) = ''boolean''"
| "typeof (JNumber n) = ''number''"
| "typeof (JString s) = ''string''"
| "typeof (JArray xs) = ''object''"
| "typeof (JObject kvs) = ''object''"

fun has_property :: "string \<Rightarrow> JSON \<Rightarrow> bool" where
  "has_property key (JObject kvs) = (map_of kvs key \<noteq> None)"
| "has_property key (JArray xs) =
     (key = ''length'' \<or> key \<in> set (map (\<lambda>n. show_nat (int n)) [0..<length xs]))"
| "has_property key v = False"

fun get_property :: "JSON \<Rightarrow> string \<Rightarrow> JSON option" where
  "get_property (JObject kvs) key = map_of kvs key"
| "get_property v key = None"

fun Array_isArray :: "JSON option \<Rightarrow> bool" where
  "Array_isArray (Some (JArray xs)) = True"
| "Array_isArray v = False"

definition isValidStats :: "JSON \<Rightarrow> bool" where
  "isValidStats data \<longleftrightarrow>
     typeof data = ''object'' \<and>
     data \<noteq> JNull \<and>
     has_property ''assets'' data \<and>
     Array_isArray (get_property data ''assets'')"

text \<open>
  \<open>parse\<close>, over the platform's decoder \<open>JSON_parse\<close>: \<open>Inl msg\<close> is the
  \<^verbatim>\<open>SyntaxError\<close> it throws on a text that is not JSON, \<open>Inr v\<close> the decoded value.
  A thrown \<^verbatim>\<open>BundleStatsError\<close> is \<open>Inl\<close>; the accepted value is returned as it is.
\<close>

definition parse :: "(string \<Rightarrow> string + JSON) \<Rightarrow> string \<Rightarrow> BundleStatsError + JSON" where
  "parse JSON_parse content =
     (case JSON_parse content of
        Inl msg \<Rightarrow>
          Inl (createError JSON_PARSE_ERROR (''Invalid JSON in stats file: '' @ msg) fatal
                 (Some (Caught msg)))
      | Inr data \<Rightarrow>
          if \<not> isValidStats data
          then Inl (createError INVALID_STATS_FORMAT
                      (''Invalid webpack stats format: missing required '' @ [CHR 0x22] @ ''assets''
                         @ [CHR 0x22] @ '' array'')
                      fatal (Some (Data data)))
          else Inr data)"


section \<open>Badge colors (formatter/badge-generator.ts)\<close>

record BadgeColors =
  background :: string
  text_color :: string
  valueBackground :: string
  valueText :: string

definition colors_success :: BadgeColors where
  "colors_success = \<lparr> background = ''#555'', text_color = ''#fff'',
                       valueBackground = ''#4c1'', valueText = ''#fff'' \<rparr>"

definition colors_warning :: BadgeColors where
  "colors_warning = \<lparr> background = ''#555'', text_color = ''#fff'',
                       valueBackground = ''#fe7d37'', valueText = ''#fff'' \<rparr>"

definition colors_error :: BadgeColors where
  "colors_error = \<lparr> background = ''#555'', text_color = ''#fff'',
                     valueBackground = ''#e05d44'', valueText = ''#fff'' \<rparr>"

definition getColors :: "AnalysisResult \<Rightarrow> BadgeColors" where
  "getColors result =
     (if anyExceeded (threshold result) then colors_error
      else if exceededFileCount (summary result) > 0 then colors_warning
      else colors_success)"


section \<open>Reading a formatted size\<close>

text \<open>
  What the precision rule speaks of, for a byte count \<open>b\<close>: the scaled magnitude in the
  chosen unit, the number of decimals the rule asks for, and the number of decimals a
  formatted string shows (the characters between its point and the space before the
  unit; none without a point).
\<close>

definition scaled :: "int \<Rightarrow> rat" where
  "scaled bytes = of_int \<bar>bytes\<bar> / of_int 1024 ^ floor_log 1024 \<bar>bytes\<bar>"

definition precision :: "int \<Rightarrow> nat" where
  "precision bytes =
     (if floor_log 1024 \<bar>bytes\<bar> = 0 \<or> scaled bytes \<ge> 100 then 0
      else if scaled bytes \<ge> 10 then 1
      else 2)"

definition decimal_places :: "string \<Rightarrow> nat" where
  "decimal_places s =
     length (dropWhile (\<lambda>c. c \<noteq> CHR ''.'') (takeWhile (\<lambda>c. c \<noteq> CHR '' '') s)) - 1"

definition is_digit :: "char \<Rightarrow> bool" where
  "is_digit c \<longleftrightarrow> c \<in> set ''0123456789''"


section \<open>Sample inputs\<close>

text \<open>The manifest and the config of the first analyzer test.\<close>

definition mkAsset :: "string \<Rightarrow> int \<Rightarrow> bool option \<Rightarrow> Asset" where
  "mkAsset n s e = \<lparr> asset_name = n, asset_size = s, asset_chunks = None,
                      emitted = e, isOverSizeLimit = None \<rparr>"

definition stats1 :: WebpackStats where
  "stats1 = \<lparr> stats_assets =
                 [mkAsset ''main.js'' 1048576 (Some True),
                  mkAsset ''vendor.js'' 3145728 (Some True),
                  mkAsset ''styles.css'' 524288 (Some True),
                  mkAsset ''main.js.map'' 2097152 (Some True),
                  mkAsset ''vendor.js.LICENSE.txt'' 1024 (Some True)],
              chunks = None, assetsByChunkName = None, namedChunkGroups = None \<rparr>"

definition config1 :: Config where
  "config1 = \<lparr> statsPath = ''webpack-stats.json'', bundleSizeThreshold = 2097152,
               totalSizeThreshold = 10485760, failOnThresholdExceed = True \<rparr>"

text \<open>Three assets of the same size, one that is not emitted, and a smaller one.\<close>

definition stats_ties :: WebpackStats where
  "stats_ties = \<lparr> stats_assets =
                     [mkAsset ''small.js'' 100 None,
                      mkAsset ''bundle1.js'' 4194304 (Some True),
                      mkAsset ''skipped.js'' 4194304 (Some False),
                      mkAsset ''bundle2.js'' 4194304 None,
                      mkAsset ''bundle3.js'' 4194304 (Some True)],
                  chunks = None, assetsByChunkName = None, namedChunkGroups = None \<rparr>"

text \<open>A manifest whose \<^verbatim>\<open>assetsByChunkName\<close> lists one asset twice under a chunk name.\<close>

definition stats_dup :: WebpackStats where
  "stats_dup = \<lparr> stats_assets = [mkAsset ''a.js'' 1024 (Some True)],
                 chunks = None,
                 assetsByChunkName = Some [(''main'', Several [''a.js'', ''a.js''])],
                 namedChunkGroups = None \<rparr>"

text \<open>A fragment of the platform's decoder, enough to run \<open>parse\<close> on four texts.\<close>

definition sample_JSON_parse :: "string \<Rightarrow> string + JSON" where
  "sample_JSON_parse s =
     (if s = ''{'' @ [CHR 0x22] @ ''assets'' @ [CHR 0x22] @ '':[1]}''
        then Inr (JObject [(''assets'', JArray [JNumber 1])])
      else if s = ''[]'' then Inr (JArray [])
      else if s = ''null'' then Inr JNull
      else Inl ''Unexpected token'')"


section \<open>Facts about the platform functions\<close>

text \<open>The stable insertion sort with the comparator \<^verbatim>\<open>(a, b) => f(b) - f(a)\<close> is the
  library's stable sort on the key \<open>- f\<close>.\<close>

lemma insert_by_desc:
  fixes f :: "'a \<Rightarrow> int"
  shows "insert_by (\<lambda>a b. f b - f a) x ys = insort_key (\<lambda>a. - f a) x ys"
  by (induction ys) auto

lemma Array_sort_desc:
  fixes f :: "'a \<Rightarrow> int"
  shows "Array_sort (\<lambda>a b. f b - f a) xs = sort_key (\<lambda>a. - f a) xs"
  by (induction xs) (simp_all add: Array_sort_def insert_by_desc)

lemma foldl_add_sum_list:
  fixes f :: "'a \<Rightarrow> int"
  shows "foldl (\<lambda>sum x. sum + f x) z xs = z + sum_list (map f xs)"
  by (induction xs arbitrary: z) simp_all

lemma sum_list_sort_key:
  fixes f :: "'a \<Rightarrow> int"
  shows "sum_list (map f (sort_key g xs)) = sum_list (map f xs)"
proof -
  have "sum_mset (image_mset f (mset (sort_key g xs))) = sum_mset (image_mset f (mset xs))"
    by simp
  then show ?thesis
    by (simp only: sum_mset_sum_list flip: mset_map)
qed

text \<open>\<open>floor_log\<close> is the integer logarithm: the scaled figure of a non-zero byte count
  lies in the range from 1 to 1024.\<close>

lemma floor_log_bounds:
  "2 \<le> k \<Longrightarrow> 1 \<le> n \<Longrightarrow> k ^ floor_log k n \<le> n \<and> n < k ^ Suc (floor_log k n)"
proof (induction k n rule: floor_log.induct)
  case (1 k n)
  show ?case
  proof (cases "n < k")
    case True
    with 1 show ?thesis by (simp add: floor_log.simps)
  next
    case False
    with "1.prems" have nk: "\<not> (k < 2 \<or> n < k)" by simp
    have kpos: "0 < k" using "1.prems" by simp
    have "0 < n div k"
      using False kpos by (simp add: pos_imp_zdiv_pos_iff)
    then have d1: "1 \<le> n div k" by simp
    have eq: "floor_log k n = Suc (floor_log k (n div k))"
      using nk by (subst floor_log.simps) simp
    from "1.IH" [OF nk "1.prems"(1) d1]
    have lo: "k ^ floor_log k (n div k) \<le> n div k"
      and hi: "n div k < k ^ Suc (floor_log k (n div k))" by simp_all
    have split: "k * (n div k) = n - n mod k"
      by (simp add: minus_mod_eq_mult_div)
    have m0: "0 \<le> n mod k" and mk: "n mod k < k"
      using kpos by simp_all
    have "k * k ^ floor_log k (n div k) \<le> k * (n div k)"
      using lo kpos by simp
    also have "\<dots> \<le> n"
      using split m0 by linarith
    finally have a: "k ^ floor_log k n \<le> n" by (simp add: eq)
    have "n div k + 1 \<le> k ^ Suc (floor_log k (n div k))"
      using hi by simp
    then have "k * (n div k + 1) \<le> k * k ^ Suc (floor_log k (n div k))"
      using kpos by simp
    moreover have "k * (n div k + 1) = k * (n div k) + k"
      by (simp add: algebra_simps)
    ultimately have "n < k * k ^ Suc (floor_log k (n div k))"
      using split mk by linarith
    then have b: "n < k ^ Suc (floor_log k n)" by (simp add: eq)
    from a b show ?thesis ..
  qed
qed

lemma scaled_nonneg: "0 \<le> scaled b"
  by (simp add: scaled_def)

lemma scaled_range:
  assumes "b \<noteq> 0"
  shows "1 \<le> scaled b \<and> scaled b < 1024"
proof -
  define i where "i = floor_log 1024 \<bar>b\<bar>"
  have "1 \<le> \<bar>b\<bar>" using assms by simp
  then have "1024 ^ i \<le> \<bar>b\<bar> \<and> \<bar>b\<bar> < 1024 ^ Suc i"
    unfolding i_def by (intro floor_log_bounds) simp_all
  then have lo: "(of_int (1024 ^ i) :: rat) \<le> of_int \<bar>b\<bar>"
    and hi: "(of_int \<bar>b\<bar> :: rat) < of_int (1024 ^ Suc i)"
    by (simp_all only: of_int_le_iff of_int_less_iff)
  have pos: "(0 :: rat) < 1024 ^ i" by simp
  have s: "scaled b = of_int \<bar>b\<bar> / 1024 ^ i"
    by (simp add: scaled_def i_def)
  have "1 \<le> scaled b"
    unfolding s using lo pos by (simp add: le_divide_eq)
  moreover have "scaled b < 1024"
    unfolding s using hi pos by (simp add: divide_less_eq mult.commute)
  ultimately show ?thesis ..
qed

text \<open>Digits, and the shape of what \<open>toFixed\<close> prints.\<close>

lemma is_digit_neq: "is_digit c \<Longrightarrow> c \<noteq> CHR ''.'' \<and> c \<noteq> CHR '' '' \<and> c \<noteq> CHR ''-''"
  by (auto simp: is_digit_def)

lemma digit_of_is_digit: "n < 10 \<Longrightarrow> is_digit (''0123456789'' ! n)"
  unfolding is_digit_def by (rule nth_mem) simp

lemma show_nat_digits: "\<forall>c \<in> set (show_nat n). is_digit c"
proof (induction n rule: show_nat.induct)
  case (1 n)
  show ?case
  proof (cases "n < 10")
    case True
    then have "show_nat n = [''0123456789'' ! nat n]"
      by (simp add: show_nat.simps)
    moreover have "nat n < 10" using True by simp
    ultimately show ?thesis
      by (simp add: digit_of_is_digit)
  next
    case False
    then have eq: "show_nat n = show_nat (n div 10) @ [''0123456789'' ! nat (n mod 10)]"
      by (subst show_nat.simps) simp
    have "nat (n mod 10) < 10" by simp
    then have "is_digit (''0123456789'' ! nat (n mod 10))"
      by (rule digit_of_is_digit)
    with 1 False show ?thesis
      by (simp add: eq)
  qed
qed

lemma show_nat_nonempty: "show_nat n \<noteq> []"
  by (subst show_nat.simps) simp

lemma toFixed_digits_0: "toFixed_digits n 0 = show_nat n"
  by (simp add: toFixed_digits_def)

lemma toFixed_digits_pos:
  assumes "0 < f"
  shows "\<exists>a b. toFixed_digits n f = a @ ''.'' @ b \<and> length b = f
           \<and> (\<forall>c \<in> set a. is_digit c) \<and> (\<forall>c \<in> set b. is_digit c)"
proof -
  define m where "m = (if length (show_nat n) \<le> f
      then replicate (f + 1 - length (show_nat n)) (CHR ''0'') @ show_nat n else show_nat n)"
  have len: "f < length m"
    by (auto simp: m_def)
  have dig: "\<forall>c \<in> set m. is_digit c"
    using show_nat_digits [of n] by (auto simp: m_def is_digit_def)
  have eq: "toFixed_digits n f = take (length m - f) m @ ''.'' @ drop (length m - f) m"
    using assms by (simp add: toFixed_digits_def m_def Let_def)
  have "length (drop (length m - f) m) = f"
    using len by simp
  moreover have "\<forall>c \<in> set (take (length m - f) m). is_digit c"
    using dig by (meson in_set_takeD)
  moreover have "\<forall>c \<in> set (drop (length m - f) m). is_digit c"
    using dig by (meson in_set_dropD)
  ultimately show ?thesis
    using eq by blast
qed

lemma takeWhile_upto:
  "\<forall>c \<in> set p. P c \<Longrightarrow> \<not> P x \<Longrightarrow> takeWhile P (p @ x # r) = p"
  by (induction p) simp_all

lemma dropWhile_upto:
  "\<forall>c \<in> set p. P c \<Longrightarrow> \<not> P x \<Longrightarrow> dropWhile P (p @ x # r) = x # r"
  by (induction p) simp_all

lemma sign_digits_plain:
  assumes "\<forall>c \<in> set a. is_digit c" "sg = [] \<or> sg = ''-''"
  shows "\<forall>c \<in> set (sg @ a). c \<noteq> CHR ''.'' \<and> c \<noteq> CHR '' ''"
proof
  fix c assume "c \<in> set (sg @ a)"
  then consider "c \<in> set sg" | "c \<in> set a" by auto
  then show "c \<noteq> CHR ''.'' \<and> c \<noteq> CHR '' ''"
  proof cases
    case 1
    with assms(2) have "c = CHR ''-''" by auto
    then show ?thesis by simp
  next
    case 2
    with assms(1) have "is_digit c" by simp
    then show ?thesis by (simp add: is_digit_neq)
  qed
qed

lemma decimal_places_point:
  assumes "\<forall>c \<in> set a. is_digit c" "\<forall>c \<in> set b. is_digit c" "sg = [] \<or> sg = ''-''"
  shows "decimal_places (sg @ (a @ ''.'' @ b) @ '' '' @ u) = length b"
proof -
  have a: "\<forall>c \<in> set (sg @ a). c \<noteq> CHR ''.'' \<and> c \<noteq> CHR '' ''"
    using assms(1,3) by (rule sign_digits_plain)
  have b: "\<forall>c \<in> set b. c \<noteq> CHR '' ''"
    using assms(2) by (simp add: is_digit_neq)
  have ab: "\<forall>c \<in> set ((sg @ a) @ CHR ''.'' # b). c \<noteq> CHR '' ''"
    using a b by auto
  have "sg @ (a @ ''.'' @ b) @ '' '' @ u = ((sg @ a) @ CHR ''.'' # b) @ CHR '' '' # u"
    by simp
  then have tw: "takeWhile (\<lambda>c. c \<noteq> CHR '' '') (sg @ (a @ ''.'' @ b) @ '' '' @ u)
      = (sg @ a) @ CHR ''.'' # b"
    using takeWhile_upto [of "(sg @ a) @ CHR ''.'' # b" "\<lambda>c. c \<noteq> CHR '' ''" "CHR '' ''" u] ab
    by simp
  have dw: "dropWhile (\<lambda>c. c \<noteq> CHR ''.'') ((sg @ a) @ CHR ''.'' # b) = CHR ''.'' # b"
    using a by (intro dropWhile_upto) auto
  show ?thesis
    unfolding decimal_places_def tw dw by simp
qed

lemma decimal_places_integer:
  assumes "\<forall>c \<in> set a. is_digit c" "sg = [] \<or> sg = ''-''"
  shows "decimal_places (sg @ a @ '' '' @ u) = 0"
proof -
  have a: "\<forall>c \<in> set (sg @ a). c \<noteq> CHR ''.'' \<and> c \<noteq> CHR '' ''"
    using assms by (rule sign_digits_plain)
  have "sg @ a @ '' '' @ u = (sg @ a) @ CHR '' '' # u"
    by simp
  then have tw: "takeWhile (\<lambda>c. c \<noteq> CHR '' '') (sg @ a @ '' '' @ u) = sg @ a"
    using takeWhile_upto [of "sg @ a" "\<lambda>c. c \<noteq> CHR '' ''" "CHR '' ''" u] a
    by simp
  have dw: "dropWhile (\<lambda>c. c \<noteq> CHR ''.'') (sg @ a) = []"
    using a by (simp only: dropWhile_eq_Nil_conv) blast
  show ?thesis
    unfolding decimal_places_def tw dw by simp
qed

lemma toFixed_nonneg: "0 \<le> x \<Longrightarrow> toFixed x f = toFixed_digits \<lfloor>x * 10 ^ f + 1 / 2\<rfloor> f"
  by (simp add: toFixed_def)

lemma show_int_Math_round: "0 \<le> x \<Longrightarrow> show_int (Math_round x) = toFixed x 0"
proof -
  assume x: "0 \<le> x"
  then have "0 \<le> \<lfloor>x + 1 / 2\<rfloor>" by simp
  then show ?thesis
    using x by (simp add: show_int_def Math_round_def toFixed_nonneg toFixed_digits_0)
qed

lemma formatFileSize_nonzero:
  assumes "b \<noteq> 0"
  shows "formatFileSize b =
     (if b < 0 then ''-'' else []) @ toFixed (scaled b) (precision b) @ '' ''
        @ SIZES_at (floor_log 1024 \<bar>b\<bar>)"
proof -
  define i where "i = floor_log 1024 \<bar>b\<bar>"
  define m where "m = scaled b"
  define F where "F = (if i = 0 then show_int (Math_round m) @ '' '' @ SIZES_at i
            else if m \<ge> 100 then show_int (Math_round m) @ '' '' @ SIZES_at i
            else if m \<ge> 10 then toFixed m 1 @ '' '' @ SIZES_at i
            else toFixed m 2 @ '' '' @ SIZES_at i)"
  have m0: "0 \<le> m"
    unfolding m_def by (rule scaled_nonneg)
  have p: "precision b = (if i = 0 \<or> m \<ge> 100 then 0 else if m \<ge> 10 then 1 else 2)"
    unfolding precision_def i_def m_def ..
  have "formatFileSize b = (if b < 0 then ''-'' @ F else F)"
    unfolding F_def i_def m_def
    using assms by (simp only: formatFileSize_def scaled_def Let_def if_False)
  moreover have "F = toFixed m (precision b) @ '' '' @ SIZES_at i"
    unfolding F_def p using m0 by (simp add: show_int_Math_round)
  ultimately show ?thesis
    unfolding i_def m_def by simp
qed

lemma decimal_places_toFixed:
  assumes "0 \<le> x" "sg = [] \<or> sg = ''-''"
  shows "decimal_places (sg @ toFixed x f @ '' '' @ u) = f"
proof (cases "f = 0")
  case True
  have "toFixed x f = show_nat \<lfloor>x * 10 ^ f + 1 / 2\<rfloor>"
    using True assms(1) by (simp only: toFixed_nonneg toFixed_digits_0)
  moreover have "decimal_places (sg @ show_nat \<lfloor>x * 10 ^ f + 1 / 2\<rfloor> @ '' '' @ u) = 0"
    using show_nat_digits assms(2) by (rule decimal_places_integer)
  ultimately show ?thesis
    using True by simp
next
  case False
  then obtain a b where ab: "toFixed x f = a @ ''.'' @ b" "length b = f"
      "\<forall>c \<in> set a. is_digit c" "\<forall>c \<in> set b. is_digit c"
    using toFixed_digits_pos [of f "\<lfloor>x * 10 ^ f + 1 / 2\<rfloor>"] assms(1)
    by (auto simp: toFixed_nonneg)
  show ?thesis
    using decimal_places_point [OF ab(3) ab(4) assms(2), of u] ab(1,2) by simp
qed

lemma formatFileSize_zero: "formatFileSize 0 = ''0 B''"
  by (simp add: formatFileSize_def)


text \<open>From the fifth unit on, the index is past the end of \<open>SIZES\<close>.\<close>

lemma unit_beyond_GB:
  assumes "1024 ^ 4 \<le> \<bar>b\<bar>"
  shows "4 \<le> floor_log 1024 \<bar>b\<bar> \<and> SIZES_at (floor_log 1024 \<bar>b\<bar>) = ''undefined''"
proof -
  define i where "i = floor_log 1024 \<bar>b\<bar>"
  have "1 \<le> \<bar>b\<bar>" using assms by simp
  then have "\<bar>b\<bar> < 1024 ^ Suc i"
    unfolding i_def using floor_log_bounds [of 1024 "\<bar>b\<bar>"] by simp
  with assms have lt: "(1024 :: int) ^ 4 < 1024 ^ Suc i"
    by (rule le_less_trans)
  have "\<not> Suc i \<le> 4"
  proof
    assume "Suc i \<le> 4"
    then have "(1024 :: int) ^ Suc i \<le> 1024 ^ 4"
      by (rule power_increasing) simp
    with lt show False
      using leD by blast
  qed
  then have "4 \<le> i" by simp
  then show ?thesis
    unfolding i_def [symmetric] by (simp add: SIZES_at_def SIZES_def)
qed


section \<open>Facts about the analyzer\<close>

lemma assets_analyze:
  "assets (analyze stats config) =
     sort_key (\<lambda>x. - size_bytes x)
       (map (analyzeAsset (bundleSizeThreshold config) (buildChunkMapping stats))
          (filter isBundleFile (stats_assets stats)))"
  by (simp add: analyze_def Let_def analyzeAssets_def Array_sort_desc)

lemma name_analyzeAsset: "name (analyzeAsset thr m a) = asset_name a"
  by (simp add: analyzeAsset_def)

lemma size_analyzeAsset: "size_bytes (analyzeAsset thr m a) = asset_size a"
  by (simp add: analyzeAsset_def)


text \<open>The second and the third source of \<open>buildChunkMapping\<close> keep every list of chunk
  names free of duplicates.\<close>

lemma pushNew_distinct: "distinct ex \<Longrightarrow> distinct (pushNew n ex)"
  by (simp add: pushNew_def)

lemma fold_pushNew_distinct: "distinct ex \<Longrightarrow> distinct (fold pushNew ns ex)"
  by (induction ns arbitrary: ex) (simp_all add: pushNew_distinct)

lemma existing_upd: "existing (m(a \<mapsto> v)) b = (if b = a then v else existing m b)"
  by (simp add: existing_def)

lemma addChunk_distinct:
  assumes "\<forall>a. distinct (existing m a)"
  shows "\<forall>a. distinct (existing (addChunk c m) a)"
proof (cases "files c")
  case None
  with assms show ?thesis by (simp add: addChunk_def)
next
  case (Some fs)
  have "\<forall>a. distinct (existing
      (fold (\<lambda>file m. m(file \<mapsto> fold pushNew (names c) (existing m file))) fs m) a)"
    using assms
  proof (induction fs arbitrary: m)
    case Nil
    then show ?case by simp
  next
    case (Cons f fs)
    have "\<forall>a. distinct (existing (m(f \<mapsto> fold pushNew (names c) (existing m f))) a)"
      using Cons.prems by (simp add: existing_upd fold_pushNew_distinct)
    then have "\<forall>a. distinct (existing
        (fold (\<lambda>file m. m(file \<mapsto> fold pushNew (names c) (existing m file))) fs
           (m(f \<mapsto> fold pushNew (names c) (existing m f)))) a)"
      by (rule Cons.IH)
    then show ?case
      by (simp only: fold.simps o_apply simp_thms)
  qed
  with Some show ?thesis by (simp add: addChunk_def)
qed

lemma addChunkGroup_distinct:
  assumes "\<forall>a. distinct (existing m a)"
  shows "\<forall>a. distinct (existing (addChunkGroup g m) a)"
proof -
  have "\<forall>a. distinct (existing
      (fold (\<lambda>asset m. m(asset \<mapsto> pushNew (fst g) (existing m asset))) as m) a)" for as
    using assms
  proof (induction as arbitrary: m)
    case Nil
    then show ?case by simp
  next
    case (Cons x as)
    have "\<forall>a. distinct (existing (m(x \<mapsto> pushNew (fst g) (existing m x))) a)"
      using Cons.prems by (simp add: existing_upd pushNew_distinct)
    then have "\<forall>a. distinct (existing
        (fold (\<lambda>asset m. m(asset \<mapsto> pushNew (fst g) (existing m asset))) as
           (m(x \<mapsto> pushNew (fst g) (existing m x)))) a)"
      by (rule Cons.IH)
    then show ?case
      by (simp only: fold.simps o_apply simp_thms)
  qed
  then show ?thesis by (simp add: addChunkGroup_def)
qed


text \<open>The value test of the parser, in terms of the decoded value.\<close>

lemma isValidStats_iff:
  "isValidStats v \<longleftrightarrow> (\<exists>kvs xs. v = JObject kvs \<and> map_of kvs ''assets'' = Some (JArray xs))"
proof (cases v)
  case (JObject kvs)
  show ?thesis
  proof (cases "map_of kvs ''assets''")
    case None
    with JObject show ?thesis by (simp add: isValidStats_def)
  next
    case (Some w)
    with JObject show ?thesis by (cases w) (simp_all add: isValidStats_def)
  qed
qed (simp_all add: isValidStats_def)



section \<open>Verdict invariants\<close>

text \<open>
  C1. For every manifest and every config, the result of \<open>analyze\<close> has
  \<open>anyExceeded\<close> equal to: the list \<open>individualExceeded\<close> is non-empty, or
  \<open>totalExceeded\<close> holds.
\<close>

theorem analyze_anyExceeded:
  "anyExceeded (threshold (analyze stats config)) =
     (length (individualExceeded (threshold (analyze stats config))) > 0
      \<or> totalExceeded (threshold (analyze stats config)))"
  by (simp add: analyze_def Let_def)

text \<open>
  C10. For every manifest and every config, the summary's \<open>exceededFileCount\<close> is the
  length of the verdict's \<open>individualExceeded\<close> list, and both are the number of assets
  of the result whose \<open>exceeded\<close> flag is set.
\<close>

theorem analyze_exceeded_counts_agree:
  "exceededFileCount (summary (analyze stats config)) =
     length (individualExceeded (threshold (analyze stats config)))
   \<and> exceededFileCount (summary (analyze stats config)) =
     length (filter exceeded (assets (analyze stats config)))"
  by (simp add: analyze_def Let_def)


section \<open>The end-to-end scenario\<close>

text \<open>
  C2. For the manifest with the assets main.js (1048576), vendor.js (3145728), styles.css
  (524288), main.js.map (2097152) and vendor.js.LICENSE.txt (1024), all emitted, and the
  thresholds 2097152 and 10485760, \<open>analyze\<close> returns the file count 3, the total size
  4718592 with the text "4.50 MB", the individually exceeding names [vendor.js],
  \<open>totalExceeded\<close> false, \<open>anyExceeded\<close> true, and the assets in the order vendor.js,
  main.js, styles.css. The two other fields of the config, \<open>p\<close> and \<open>f\<close>, are arbitrary.
\<close>

theorem analyze_end_to_end:
  "fileCount (summary (analyze stats1 (config1\<lparr>statsPath := p, failOnThresholdExceed := f\<rparr>))) = 3
   \<and> totalSize (summary (analyze stats1 (config1\<lparr>statsPath := p, failOnThresholdExceed := f\<rparr>)))
       = 4718592
   \<and> totalSizeText (summary (analyze stats1 (config1\<lparr>statsPath := p, failOnThresholdExceed := f\<rparr>)))
       = ''4.50 MB''
   \<and> individualExceeded (threshold (analyze stats1 (config1\<lparr>statsPath := p, failOnThresholdExceed := f\<rparr>)))
       = [''vendor.js'']
   \<and> totalExceeded (threshold (analyze stats1 (config1\<lparr>statsPath := p, failOnThresholdExceed := f\<rparr>)))
       = False
   \<and> anyExceeded (threshold (analyze stats1 (config1\<lparr>statsPath := p, failOnThresholdExceed := f\<rparr>)))
       = True
   \<and> map name (assets (analyze stats1 (config1\<lparr>statsPath := p, failOnThresholdExceed := f\<rparr>)))
       = [''vendor.js'', ''main.js'', ''styles.css'']"
  by code_simp


section \<open>Filtering and order\<close>

text \<open>
  C3. For every manifest and every config: an asset is kept exactly when its name does not
  end with ".map", does not end with ".LICENSE.txt" and its emitted flag is not false
  (\<open>isBundleFile\<close>); the assets of the result are, as a multiset of names and sizes, the
  kept assets of the manifest, so a dropped asset appears nowhere and every other asset
  appears; the file count is the number of kept assets and the total size is the sum of
  their sizes; and no name in the result ends with ".map" or ".LICENSE.txt".
\<close>

theorem analyze_filtering:
  "(isBundleFile a \<longleftrightarrow>
      \<not> (endsWith (asset_name a) ''.map'' \<or> endsWith (asset_name a) ''.LICENSE.txt''
         \<or> emitted a = Some False))
   \<and> mset (map (\<lambda>x. (name x, size_bytes x)) (assets (analyze stats config))) =
       mset (map (\<lambda>a. (asset_name a, asset_size a)) (filter isBundleFile (stats_assets stats)))
   \<and> fileCount (summary (analyze stats config)) = length (filter isBundleFile (stats_assets stats))
   \<and> totalSize (summary (analyze stats config)) =
       sum_list (map asset_size (filter isBundleFile (stats_assets stats)))
   \<and> (\<forall>x \<in> set (assets (analyze stats config)).
         \<not> endsWith (name x) ''.map'' \<and> \<not> endsWith (name x) ''.LICENSE.txt'')"
proof (intro conjI)
  show "isBundleFile a \<longleftrightarrow>
      \<not> (endsWith (asset_name a) ''.map'' \<or> endsWith (asset_name a) ''.LICENSE.txt''
         \<or> emitted a = Some False)"
    by (simp add: isBundleFile_def)
next
  let ?mk = "analyzeAsset (bundleSizeThreshold config) (buildChunkMapping stats)"
  let ?kept = "filter isBundleFile (stats_assets stats)"
  have "mset (map (\<lambda>x. (name x, size_bytes x)) (assets (analyze stats config))) =
        image_mset (\<lambda>x. (name x, size_bytes x)) (mset (map ?mk ?kept))"
    by (simp add: assets_analyze)
  also have "\<dots> = mset (map (\<lambda>a. (asset_name a, asset_size a)) ?kept)"
    by (simp add: name_analyzeAsset size_analyzeAsset comp_def multiset.map_comp)
  finally show "mset (map (\<lambda>x. (name x, size_bytes x)) (assets (analyze stats config))) =
       mset (map (\<lambda>a. (asset_name a, asset_size a)) ?kept)" .
next
  show "fileCount (summary (analyze stats config)) = length (filter isBundleFile (stats_assets stats))"
    by (simp add: analyze_def Let_def analyzeAssets_def Array_sort_desc)
next
  have "totalSize (summary (analyze stats config)) =
          sum_list (map size_bytes (assets (analyze stats config)))"
    by (simp add: analyze_def Let_def foldl_add_sum_list)
  also have "\<dots> = sum_list (map asset_size (filter isBundleFile (stats_assets stats)))"
    by (simp add: assets_analyze sum_list_sort_key comp_def size_analyzeAsset)
  finally show "totalSize (summary (analyze stats config)) =
       sum_list (map asset_size (filter isBundleFile (stats_assets stats)))" .
next
  show "\<forall>x \<in> set (assets (analyze stats config)).
         \<not> endsWith (name x) ''.map'' \<and> \<not> endsWith (name x) ''.LICENSE.txt''"
    by (auto simp: assets_analyze name_analyzeAsset isBundleFile_def)
qed


theorem analyze_filtering_witness:
  "\<not> isBundleFile (mkAsset ''main.js.map'' 2097152 (Some True))
   \<and> \<not> isBundleFile (mkAsset ''skipped.js'' 4194304 (Some False))
   \<and> isBundleFile (mkAsset ''bundle2.js'' 4194304 None)
   \<and> map name (assets (analyze stats1 config1)) = [''vendor.js'', ''main.js'', ''styles.css'']
   \<and> fileCount (summary (analyze stats1 config1)) = 3
   \<and> totalSize (summary (analyze stats1 config1)) = 4718592
   \<and> list_all (\<lambda>x. \<not> endsWith (name x) ''.map'' \<and> \<not> endsWith (name x) ''.LICENSE.txt'')
        (assets (analyze stats1 config1))"
proof -
  have kept: "filter isBundleFile (stats_assets stats1) =
      [mkAsset ''main.js'' 1048576 (Some True), mkAsset ''vendor.js'' 3145728 (Some True),
       mkAsset ''styles.css'' 524288 (Some True)]"
    by code_simp
  have names: "map name (assets (analyze stats1 config1)) =
      [''vendor.js'', ''main.js'', ''styles.css'']"
    by code_simp
  have e1: "endsWith (asset_name (mkAsset ''main.js.map'' 2097152 (Some True))) ''.map''"
    by code_simp
  have e2: "emitted (mkAsset ''skipped.js'' 4194304 (Some False)) = Some False"
    by (simp add: mkAsset_def)
  have e3: "\<not> (endsWith (asset_name (mkAsset ''bundle2.js'' 4194304 None)) ''.map''
      \<or> endsWith (asset_name (mkAsset ''bundle2.js'' 4194304 None)) ''.LICENSE.txt''
      \<or> emitted (mkAsset ''bundle2.js'' 4194304 None) = Some False)"
    by code_simp
  show ?thesis
    using analyze_filtering [of "mkAsset ''main.js.map'' 2097152 (Some True)" stats1 config1]
      analyze_filtering [of "mkAsset ''skipped.js'' 4194304 (Some False)" stats1 config1]
      analyze_filtering [of "mkAsset ''bundle2.js'' 4194304 None" stats1 config1]
      kept names e1 e2 e3
    by (simp add: list_all_iff mkAsset_def)
qed

text \<open>
  C4. For every manifest and every config, the assets of the result are sorted by size,
  largest first, and the assets of any one size stand in the order that the kept assets of
  that size have in the manifest.
\<close>

theorem analyze_sorted_stable:
  "sorted_wrt (\<lambda>x y. size_bytes x \<ge> size_bytes y) (assets (analyze stats config))
   \<and> (\<forall>s. map name (filter (\<lambda>x. size_bytes x = s) (assets (analyze stats config))) =
            map asset_name (filter (\<lambda>a. asset_size a = s)
              (filter isBundleFile (stats_assets stats))))"
proof
  have "sorted (map (\<lambda>x. - size_bytes x) (assets (analyze stats config)))"
    unfolding assets_analyze by (rule sorted_sort_key)
  then show "sorted_wrt (\<lambda>x y. size_bytes x \<ge> size_bytes y) (assets (analyze stats config))"
    by (simp add: sorted_map)
next
  let ?mk = "analyzeAsset (bundleSizeThreshold config) (buildChunkMapping stats)"
  let ?kept = "filter isBundleFile (stats_assets stats)"
  show "\<forall>s. map name (filter (\<lambda>x. size_bytes x = s) (assets (analyze stats config))) =
            map asset_name (filter (\<lambda>a. asset_size a = s) ?kept)"
  proof
    fix s
    have "filter (\<lambda>x. size_bytes x = s) (assets (analyze stats config)) =
          filter (\<lambda>x. - size_bytes x = - s) (sort_key (\<lambda>x. - size_bytes x) (map ?mk ?kept))"
      by (simp add: assets_analyze)
    also have "\<dots> = filter (\<lambda>x. - size_bytes x = - s) (map ?mk ?kept)"
      by (rule sort_key_stable)
    also have "\<dots> = map ?mk (filter (\<lambda>a. asset_size a = s) ?kept)"
      by (simp add: filter_map comp_def size_analyzeAsset)
    finally show "map name (filter (\<lambda>x. size_bytes x = s) (assets (analyze stats config))) =
            map asset_name (filter (\<lambda>a. asset_size a = s) ?kept)"
      by (simp add: comp_def name_analyzeAsset)
  qed
qed

theorem analyze_sorted_stable_witness:
  "map name (assets (analyze stats_ties config1)) =
     [''bundle1.js'', ''bundle2.js'', ''bundle3.js'', ''small.js'']
   \<and> sorted_wrt (\<lambda>x y. size_bytes x \<ge> size_bytes y) (assets (analyze stats_ties config1))
   \<and> map name (filter (\<lambda>x. size_bytes x = 4194304) (assets (analyze stats_ties config1))) =
     [''bundle1.js'', ''bundle2.js'', ''bundle3.js'']"
proof -
  have names: "map name (assets (analyze stats_ties config1)) =
     [''bundle1.js'', ''bundle2.js'', ''bundle3.js'', ''small.js'']"
    by code_simp
  have kept: "map asset_name (filter (\<lambda>a. asset_size a = 4194304)
       (filter isBundleFile (stats_assets stats_ties))) =
     [''bundle1.js'', ''bundle2.js'', ''bundle3.js'']"
    by code_simp
  show ?thesis
    using analyze_sorted_stable [of stats_ties config1] names kept by simp
qed


section \<open>Badge colors\<close>

text \<open>
  C9. For every result that \<open>analyze\<close> produces, \<open>getColors\<close> never returns the warning
  palette: it returns the error palette exactly when \<open>anyExceeded\<close> holds and the success
  palette otherwise, because a positive \<open>exceededFileCount\<close> implies \<open>anyExceeded\<close>.
\<close>

theorem getColors_never_warning:
  "getColors (analyze stats config) \<noteq> colors_warning
   \<and> (getColors (analyze stats config) = colors_error
        \<longleftrightarrow> anyExceeded (threshold (analyze stats config)))
   \<and> (getColors (analyze stats config) = colors_success
        \<longleftrightarrow> \<not> anyExceeded (threshold (analyze stats config)))
   \<and> (exceededFileCount (summary (analyze stats config)) > 0
        \<longrightarrow> anyExceeded (threshold (analyze stats config)))"
  by (simp add: getColors_def analyze_def Let_def colors_error_def colors_warning_def
      colors_success_def)

theorem getColors_never_warning_witness:
  "exceededFileCount (summary (analyze stats1 config1)) > 0
   \<and> anyExceeded (threshold (analyze stats1 config1))
   \<and> getColors (analyze stats1 config1) = colors_error
   \<and> getColors (analyze stats1 config1) \<noteq> colors_warning"
proof -
  have "exceededFileCount (summary (analyze stats1 config1)) > 0"
    by code_simp
  then show ?thesis
    using getColors_never_warning [of stats1 config1] by simp
qed


section \<open>Chunk attribution\<close>

text \<open>
  C5 (the code differs). The claim: the chunk names attributed to an asset never contain
  a name twice. The first source, \<^verbatim>\<open>assetsByChunkName\<close>, pushes the chunk name without
  the test that the two other sources make: a manifest that lists the asset a.js twice
  under the chunk name main gives a.js the chunk names [main, main].
\<close>

theorem buildChunkMapping_duplicate:
  "buildChunkMapping stats_dup ''a.js'' = Some [''main'', ''main'']
   \<and> map chunkNames (assets (analyze stats_dup config1)) = [ [''main'', ''main''] ]
   \<and> \<not> distinct (chunkNames (hd (assets (analyze stats_dup config1))))"
  by code_simp


section \<open>Size formatting\<close>

text \<open>
  C6. For every byte count \<open>b\<close>, \<open>formatFileSize b\<close> is the sign, the scaled magnitude
  printed by \<open>toFixed\<close> with the number of decimals of the precision rule (none when the
  unit is bytes or the magnitude is at least 100, one from 10 up to 100, two below 10), a
  space and the unit; the string shows exactly that number of decimals; and the byte counts
  0, 1024, 1572864 and -1024 give "0 B", "1.00 KB", "1.50 MB" and "-1.00 KB".
\<close>

theorem formatFileSize_precision:
  "formatFileSize b =
     (if b < 0 then ''-'' else []) @ toFixed (scaled b) (precision b) @ '' ''
        @ SIZES_at (floor_log 1024 \<bar>b\<bar>)
   \<and> decimal_places (formatFileSize b) = precision b
   \<and> formatFileSize 0 = ''0 B''
   \<and> formatFileSize 1024 = ''1.00 KB''
   \<and> formatFileSize 1572864 = ''1.50 MB''
   \<and> formatFileSize (- 1024) = ''-1.00 KB''"
proof (intro conjI)
  show eq: "formatFileSize b =
     (if b < 0 then ''-'' else []) @ toFixed (scaled b) (precision b) @ '' ''
        @ SIZES_at (floor_log 1024 \<bar>b\<bar>)"
  proof (cases "b = 0")
    case True
    have "toFixed (scaled 0) (precision 0) @ '' '' @ SIZES_at (floor_log 1024 \<bar>0\<bar>) = ''0 B''"
      by code_simp
    then show ?thesis
      using True by (simp add: formatFileSize_zero)
  next
    case False
    then show ?thesis by (rule formatFileSize_nonzero)
  qed
  have "decimal_places ((if b < 0 then ''-'' else []) @ toFixed (scaled b) (precision b) @ '' ''
        @ SIZES_at (floor_log 1024 \<bar>b\<bar>)) = precision b"
    by (rule decimal_places_toFixed) (simp_all add: scaled_nonneg)
  then show "decimal_places (formatFileSize b) = precision b"
    by (simp only: eq)
  show "formatFileSize 0 = ''0 B''" by code_simp
  show "formatFileSize 1024 = ''1.00 KB''" by code_simp
  show "formatFileSize 1572864 = ''1.50 MB''" by code_simp
  show "formatFileSize (- 1024) = ''-1.00 KB''" by code_simp
qed

theorem formatFileSize_precision_witness:
  "formatFileSize 12636 = ''12.3 KB''
   \<and> precision 12636 = 1
   \<and> decimal_places (formatFileSize 12636) = 1
   \<and> decimal_places (formatFileSize 104857600) = 0
   \<and> decimal_places (formatFileSize (- 1536)) = 2"
proof -
  have f: "formatFileSize 12636 = ''12.3 KB''" by code_simp
  have p1: "precision 12636 = 1" by code_simp
  have p2: "precision 104857600 = 0" by code_simp
  have p3: "precision (- 1536) = 2" by code_simp
  have d1: "decimal_places (formatFileSize 12636) = precision 12636"
    using formatFileSize_precision [of 12636] by (rule conjunct2 [THEN conjunct1])
  have d2: "decimal_places (formatFileSize 104857600) = precision 104857600"
    using formatFileSize_precision [of 104857600] by (rule conjunct2 [THEN conjunct1])
  have d3: "decimal_places (formatFileSize (- 1536)) = precision (- 1536)"
    using formatFileSize_precision [of "- 1536"] by (rule conjunct2 [THEN conjunct1])
  show ?thesis
    unfolding d1 d2 d3 p1 p2 p3 using f by simp
qed

text \<open>
  C7 (the code differs). The claim: a byte count of magnitude \<open>1024\<^sup>4\<close> or more keeps
  the unit GB. The unit index is not capped at the last entry of \<open>SIZES\<close>: at
  \<open>1024\<^sup>4\<close> the index is 4, the figure is scaled by \<open>1024\<^sup>4\<close>, and the unit printed is
  the \<^verbatim>\<open>undefined\<close> read past the end of the array.
\<close>

theorem formatFileSize_beyond_GB:
  "formatFileSize (1024 ^ 4) = ''1.00 undefined''
   \<and> floor_log 1024 (1024 ^ 4) = 4
   \<and> \<not> endsWith (formatFileSize (1024 ^ 4)) ''GB''"
  by code_simp


section \<open>Parser errors\<close>

text \<open>
  C8. \<open>parse\<close> throws an error with the code \<open>JSON_PARSE_ERROR\<close> exactly when the
  decoder rejects the text; when the decoder returns a value, \<open>parse\<close> throws an error
  with the code \<open>INVALID_STATS_FORMAT\<close> exactly when the value is not an object with an
  array under the key assets; otherwise it returns the decoded value as it is.
\<close>

theorem parse_errors:
  "((\<exists>e. parse JSON_parse content = Inl e \<and> code e = JSON_PARSE_ERROR)
      \<longleftrightarrow> (\<exists>msg. JSON_parse content = Inl msg))
   \<and> (JSON_parse content = Inr v \<longrightarrow>
        ((\<exists>e. parse JSON_parse content = Inl e \<and> code e = INVALID_STATS_FORMAT)
           \<longleftrightarrow> \<not> (\<exists>kvs xs. v = JObject kvs \<and> map_of kvs ''assets'' = Some (JArray xs))))
   \<and> (JSON_parse content = Inr v \<longrightarrow>
        (\<exists>kvs xs. v = JObject kvs \<and> map_of kvs ''assets'' = Some (JArray xs)) \<longrightarrow>
        parse JSON_parse content = Inr v)"
proof (cases "JSON_parse content")
  case (Inl msg)
  then show ?thesis
    by (simp add: parse_def createError_def)
next
  case (Inr w)
  show ?thesis
  proof (cases "isValidStats w")
    case True
    with Inr show ?thesis
      by (auto simp: parse_def isValidStats_iff)
  next
    case False
    with Inr show ?thesis
      by (auto simp: parse_def createError_def isValidStats_iff)
  qed
qed


theorem parse_errors_witness:
  "(\<exists>e. parse sample_JSON_parse ''{assets'' = Inl e \<and> code e = JSON_PARSE_ERROR)
   \<and> (\<exists>e. parse sample_JSON_parse ''[]'' = Inl e \<and> code e = INVALID_STATS_FORMAT)
   \<and> (\<exists>e. parse sample_JSON_parse ''null'' = Inl e \<and> code e = INVALID_STATS_FORMAT)
   \<and> parse sample_JSON_parse (''{'' @ [CHR 0x22] @ ''assets'' @ [CHR 0x22] @ '':[1]}'')
       = Inr (JObject [(''assets'', JArray [JNumber 1])])"
proof -
  have 1: "sample_JSON_parse ''{assets'' = Inl ''Unexpected token''"
    by (simp add: sample_JSON_parse_def)
  have 2: "sample_JSON_parse ''[]'' = Inr (JArray [])"
    by (simp add: sample_JSON_parse_def)
  have 3: "sample_JSON_parse ''null'' = Inr JNull"
    by (simp add: sample_JSON_parse_def)
  have 4: "sample_JSON_parse (''{'' @ [CHR 0x22] @ ''assets'' @ [CHR 0x22] @ '':[1]}'')
       = Inr (JObject [(''assets'', JArray [JNumber 1])])"
    by (simp add: sample_JSON_parse_def)
  show ?thesis
    using parse_errors [of sample_JSON_parse "''{assets''"] 1
      parse_errors [of sample_JSON_parse "''[]''" "JArray []"] 2
      parse_errors [of sample_JSON_parse "''null''" JNull] 3
      parse_errors [of sample_JSON_parse "''{'' @ [CHR 0x22] @ ''assets'' @ [CHR 0x22] @ '':[1]}''"
        "JObject [(''assets'', JArray [JNumber 1])]"] 4
    by simp
qed

end
